theory Spec2Isabelle
  imports Complex_Main "HOL-Library.AList"
begin

section \<open>Numbers and strings of the runtime\<close>

text \<open>
  A JavaScript \<open>number\<close> is modelled as a real: the geometry of the strip is stated in
  exact arithmetic, without the rounding of IEEE doubles.  The conversion of a number to
  text inside a template literal (\<open>`${value}`\<close>) belongs to the runtime, so every function
  that builds a filter string takes it as the parameter \<open>fmt\<close>.
\<close>

text \<open>\<open>String.prototype.trim\<close>: strips the white space at both ends.\<close>

definition isWhiteSpace :: "char \<Rightarrow> bool" where
  "isWhiteSpace c = (c \<in> set [CHR '' '', CHR 0x09, CHR 0x0A, CHR 0x0B, CHR 0x0C, CHR 0x0D, CHR 0xA0])"

definition trim :: "string \<Rightarrow> string" where
  "trim s = rev (dropWhile isWhiteSpace (rev (dropWhile isWhiteSpace s)))"

text \<open>Truthiness of a string that may be \<open>undefined\<close>, and the operator \<open>||\<close> on such values.\<close>

fun truthy :: "string option \<Rightarrow> bool" where
  "truthy None = False"
| "truthy (Some s) = (s \<noteq> [])"

definition orElse :: "string option \<Rightarrow> string option \<Rightarrow> string option" where
  "orElse a b = (if truthy a then a else b)"

section \<open>Filter configuration (types/filters.ts)\<close>

record BasicFilter =
  bf_name :: string
  bf_value :: string
  bf_label :: string

record AdvancedFilter =
  af_name :: string
  af_min :: real
  af_max :: real
  af_step :: real
  af_defaultValue :: real
  af_unit :: string
  af_label :: string

text \<open>
  \<open>advanced\<close> is a \<open>Record<string, number>\<close>: an object whose own keys (here the names of
  filters, none of them an array index) are enumerated in insertion order, so it is an
  association list.
\<close>

record AppliedFilters =
  basic :: "string list"
  advanced :: "(string \<times> real) list"

definition BASIC_FILTERS :: "BasicFilter list" where
  "BASIC_FILTERS =
    [ \<lparr>bf_name = ''none'', bf_value = ''none'', bf_label = ''Original''\<rparr>,
      \<lparr>bf_name = ''grayscale'', bf_value = ''grayscale(100%)'', bf_label = ''Grayscale''\<rparr>,
      \<lparr>bf_name = ''sepia'', bf_value = ''sepia(100%)'', bf_label = ''Sepia''\<rparr>,
      \<lparr>bf_name = ''invert'', bf_value = ''invert(100%)'', bf_label = ''Invert''\<rparr>,
      \<lparr>bf_name = ''blur'', bf_value = ''blur(2px)'', bf_label = ''Blur''\<rparr>,
      \<lparr>bf_name = ''brightness'', bf_value = ''brightness(150%)'', bf_label = ''Bright''\<rparr>,
      \<lparr>bf_name = ''contrast'', bf_value = ''contrast(150%)'', bf_label = ''High Contrast''\<rparr>,
      \<lparr>bf_name = ''saturate'', bf_value = ''saturate(200%)'', bf_label = ''Vibrant''\<rparr>,
      \<lparr>bf_name = ''hue-rotate'', bf_value = ''hue-rotate(90deg)'', bf_label = ''Color Shift''\<rparr> ]"

definition ADVANCED_FILTERS :: "AdvancedFilter list" where
  "ADVANCED_FILTERS =
    [ \<lparr>af_name = ''brightness'', af_min = 0, af_max = 300, af_step = 1, af_defaultValue = 100,
        af_unit = ''%'', af_label = ''Brightness''\<rparr>,
      \<lparr>af_name = ''contrast'', af_min = 0, af_max = 300, af_step = 1, af_defaultValue = 100,
        af_unit = ''%'', af_label = ''Contrast''\<rparr>,
      \<lparr>af_name = ''saturate'', af_min = 0, af_max = 300, af_step = 1, af_defaultValue = 100,
        af_unit = ''%'', af_label = ''Saturation''\<rparr>,
      \<lparr>af_name = ''blur'', af_min = 0, af_max = 10, af_step = 1 / 10, af_defaultValue = 0,
        af_unit = ''px'', af_label = ''Blur''\<rparr>,
      \<lparr>af_name = ''hue-rotate'', af_min = 0, af_max = 360, af_step = 1, af_defaultValue = 0,
        af_unit = ''deg'', af_label = ''Hue''\<rparr>,
      \<lparr>af_name = ''opacity'', af_min = 0, af_max = 100, af_step = 1, af_defaultValue = 100,
        af_unit = ''%'', af_label = ''Opacity''\<rparr> ]"

section \<open>The filter panel (components/editing/FilterPanel.tsx)\<close>

text \<open>
  Each handler passes the new filter set to \<open>onFiltersChange\<close>, which the page stores as the
  current \<open>appliedFilters\<close>; a handler is therefore a function on the filter set.
\<close>

definition handleBasicFilterToggle :: "string \<Rightarrow> AppliedFilters \<Rightarrow> AppliedFilters" where
  "handleBasicFilterToggle filterName appliedFilters =
     appliedFilters \<lparr> basic :=
       (if filterName \<in> set (basic appliedFilters)
        then filter (\<lambda>f. f \<noteq> filterName) (basic appliedFilters)
        else basic appliedFilters @ [filterName]) \<rparr>"





text \<open>The state the page starts from: \<open>{ basic: [], advanced: {} }\<close>.\<close>

definition initialFilters :: AppliedFilters where
  "initialFilters = \<lparr> basic = [], advanced = [] \<rparr>"

text \<open>
  The slider of an advanced filter shows \<open>appliedFilters.advanced[filter.name] || filter.defaultValue\<close>:
  an absent entry and a stored 0 are both falsy.
\<close>

definition sliderValue :: "AdvancedFilter \<Rightarrow> AppliedFilters \<Rightarrow> real" where
  "sliderValue f appliedFilters =
     (case map_of (advanced appliedFilters) (af_name f) of
        None \<Rightarrow> af_defaultValue f
      | Some v \<Rightarrow> if v = 0 then af_defaultValue f else v)"

definition sliderLabel :: "(real \<Rightarrow> string) \<Rightarrow> AdvancedFilter \<Rightarrow> AppliedFilters \<Rightarrow> string" where
  "sliderLabel fmt f appliedFilters = fmt (sliderValue f appliedFilters) @ af_unit f"

section \<open>Filter strings\<close>

subsection \<open>ImageProcessor.applyFilters (the string assigned to \<open>ctx.filter\<close>)\<close>

definition applyFilters_basic :: "string \<Rightarrow> string \<Rightarrow> string" where
  "applyFilters_basic filterString filterName =
     (case find (\<lambda>f. bf_name f = filterName) BASIC_FILTERS of
        None \<Rightarrow> filterString
      | Some f \<Rightarrow> filterString @ bf_value f @ '' '')"

definition applyFilters_advanced :: "(real \<Rightarrow> string) \<Rightarrow> string \<Rightarrow> string \<times> real \<Rightarrow> string" where
  "applyFilters_advanced fmt filterString entry =
     (case entry of (name, v) \<Rightarrow>
        (case find (\<lambda>f. af_name f = name) ADVANCED_FILTERS of
           None \<Rightarrow> filterString
         | Some f \<Rightarrow> filterString @ name @ ''('' @ fmt v @ af_unit f @ '') ''))"

definition applyFilters_filterString :: "(real \<Rightarrow> string) \<Rightarrow> AppliedFilters \<Rightarrow> string" where
  "applyFilters_filterString fmt filters =
     trim (foldl (applyFilters_advanced fmt)
             (foldl applyFilters_basic [] (basic filters)) (advanced filters))"

subsection \<open>PhotoCanvas.getImageStyle (the style of each preview image)\<close>

definition basicStyle :: "string \<Rightarrow> string" where
  "basicStyle basicFilter =
     (if basicFilter = ''grayscale'' then ''grayscale(100%) ''
      else if basicFilter = ''sepia'' then ''sepia(100%) ''
      else if basicFilter = ''blur'' then ''blur(2px) ''
      else if basicFilter = ''brightness'' then ''brightness(1.2) ''
      else if basicFilter = ''contrast'' then ''contrast(1.2) ''
      else if basicFilter = ''saturate'' then ''saturate(1.5) ''
      else if basicFilter = ''hue-rotate'' then ''hue-rotate(90deg) ''
      else if basicFilter = ''invert'' then ''invert(100%) ''
      else [])"

definition advancedStyle :: "(real \<Rightarrow> string) \<Rightarrow> string \<times> real \<Rightarrow> string" where
  "advancedStyle fmt entry =
     (case entry of (key, v) \<Rightarrow>
        if key = ''brightness'' then ''brightness('' @ fmt v @ ''%) ''
        else if key = ''contrast'' then ''contrast('' @ fmt v @ ''%) ''
        else if key = ''saturate'' then ''saturate('' @ fmt v @ ''%) ''
        else if key = ''blur'' then ''blur('' @ fmt v @ ''px) ''
        else [])"

text \<open>The local variable \<open>filter\<close> after both loops, before it is trimmed.\<close>

definition imageFilter :: "(real \<Rightarrow> string) \<Rightarrow> AppliedFilters \<Rightarrow> string" where
  "imageFilter fmt appliedFilters =
     foldl (\<lambda>s e. s @ advancedStyle fmt e)
       (foldl (\<lambda>s b. s @ basicStyle b) [] (basic appliedFilters))
       (advanced appliedFilters)"

definition getImageStyle :: "(real \<Rightarrow> string) \<Rightarrow> AppliedFilters \<Rightarrow> string" where
  "getImageStyle fmt appliedFilters =
     (let t = trim (imageFilter fmt appliedFilters) in if t = [] then ''none'' else t)"

section \<open>Bounds of the advanced filters\<close>




text \<open>A run of the panel: the user toggles the basic filters \<open>fs\<close> one after the other.\<close>

definition toggleSequence :: "string list \<Rightarrow> AppliedFilters \<Rightarrow> AppliedFilters" where
  "toggleSequence fs appliedFilters = foldl (\<lambda>a f. handleBasicFilterToggle f a) appliedFilters fs"

text \<open>
  An instance of the runtime's number formatting, right on the non-negative whole numbers:
  the decimal digits.  It instantiates \<open>fmt\<close> where a concrete run is evaluated.
\<close>

fun digitsOf :: "nat \<Rightarrow> string" where
  "digitsOf n = (if n < 10 then [''0123456789'' ! n] else digitsOf (n div 10) @ [''0123456789'' ! (n mod 10)])"

declare digitsOf.simps [simp del]

definition fmtWhole :: "real \<Rightarrow> string" where
  "fmtWhole v = digitsOf (nat \<lfloor>v\<rfloor>)"

section \<open>Photos, stickers and layouts (types/photo.ts, PhotoCanvas.tsx)\<close>

record Sticker =
  st_id :: string
  st_src :: string
  st_name :: string
  st_x :: real
  st_y :: real
  st_width :: real
  st_height :: real
  st_rotation :: real
  st_zIndex :: real

record Photo =
  photo_id :: string
  originalSrc :: string
  processedSrc :: "string option"

datatype Layout = Horizontal | Vertical | Grid

record FrameLayout =
  fl_photoCount :: nat
  fl_layout :: Layout

text \<open>The prop \<open>photo: Photo | Photo[]\<close>.\<close>

datatype PhotoProp = OnePhoto Photo | PhotoArray "Photo list"

text \<open>\<open>const photos = Array.isArray(photo) ? photo : [photo]\<close> and \<open>primaryPhoto = photos[0]\<close>.\<close>

definition photos :: "PhotoProp \<Rightarrow> Photo list" where
  "photos photo = (case photo of PhotoArray ps \<Rightarrow> ps | OnePhoto p \<Rightarrow> [p])"

definition primaryPhoto :: "PhotoProp \<Rightarrow> Photo option" where
  "primaryPhoto photo = (case photos photo of [] \<Rightarrow> None | p # rest \<Rightarrow> Some p)"

text \<open>\<open>photo[i]?.originalSrc\<close>: \<open>undefined\<close> beyond the end of the array.\<close>

definition srcAt :: "Photo list \<Rightarrow> nat \<Rightarrow> string option" where
  "srcAt ps i = (if i < length ps then Some (originalSrc (ps ! i)) else None)"

text \<open>\<open>selectedLayout?.photoCount || 3\<close> and \<open>selectedLayout?.layout || 'vertical'\<close>.\<close>

definition layoutPhotoCount :: "FrameLayout option \<Rightarrow> nat" where
  "layoutPhotoCount selectedLayout =
     (case selectedLayout of
        None \<Rightarrow> 3
      | Some l \<Rightarrow> if fl_photoCount l = 0 then 3 else fl_photoCount l)"

definition layoutKind :: "FrameLayout option \<Rightarrow> Layout" where
  "layoutKind selectedLayout = (case selectedLayout of None \<Rightarrow> Vertical | Some l \<Rightarrow> fl_layout l)"

text \<open>The component shows a placeholder instead of the strip when the first photo has no source.\<close>

datatype View = Placeholder string | PhotoStrip

definition PhotoCanvas_view :: "PhotoProp \<Rightarrow> View" where
  "PhotoCanvas_view photo =
     (if \<not> truthy (map_option originalSrc (primaryPhoto photo))
      then Placeholder ''No photo available'' else PhotoStrip)"

text \<open>
  The interactive preview (\<open>createPhotoStrip\<close>): the source and the style of the image
  element of each slot.
\<close>

definition previewSrc :: "PhotoProp \<Rightarrow> nat \<Rightarrow> string option" where
  "previewSrc photo index =
     orElse (orElse (srcAt (photos photo) index) (srcAt (photos photo) 0))
       (map_option originalSrc (primaryPhoto photo))"

definition previewSlots ::
  "(real \<Rightarrow> string) \<Rightarrow> PhotoProp \<Rightarrow> FrameLayout option \<Rightarrow> AppliedFilters \<Rightarrow> (string option \<times> string) list" where
  "previewSlots fmt photo selectedLayout appliedFilters =
     (if layoutPhotoCount selectedLayout = 1
      then [(map_option originalSrc (primaryPhoto photo), getImageStyle fmt appliedFilters)]
      else map (\<lambda>index. (previewSrc photo index, getImageStyle fmt appliedFilters))
             [0..<layoutPhotoCount selectedLayout])"

section \<open>The 2D canvas\<close>

text \<open>
  The canvas is modelled by its drawing state, the stack of saved states and the log of
  the drawing commands issued so far.  Every command records the drawing state it was
  issued in (fill style, font, filter, transform), which is what decides its pixels.
  The current transform is the list of the transformations applied since the identity.
\<close>

record Image =
  img_src :: string
  img_width :: nat
  img_height :: nat

datatype Transform = Translate real real | Rotate real

datatype FillStyle = Colour string | LinearGradient real real real real "(real \<times> string) list"

record DrawState =
  fillStyle :: FillStyle
  font :: string
  textAlign :: string
  ctxFilter :: string
  transform :: "Transform list"

datatype DrawOp =
    FillRect DrawState real real real real
  | DrawImage DrawState Image "(real \<times> real \<times> real \<times> real) option" real real real real
  | FillText DrawState string real real

record Canvas =
  cv_width :: real
  cv_height :: real
  state :: DrawState
  saved :: "DrawState list"
  ops :: "DrawOp list"

definition defaultState :: DrawState where
  "defaultState = \<lparr> fillStyle = Colour ''#000000'', font = ''10px sans-serif'',
     textAlign = ''start'', ctxFilter = ''none'', transform = [] \<rparr>"

text \<open>Assigning \<open>canvas.width\<close> and \<open>canvas.height\<close> clears the bitmap and resets the context.\<close>

definition resizeCanvas :: "real \<Rightarrow> real \<Rightarrow> Canvas \<Rightarrow> Canvas" where
  "resizeCanvas w h canvas =
     \<lparr> cv_width = w, cv_height = h, state = defaultState, saved = [], ops = [] \<rparr>"

definition setFillStyle :: "FillStyle \<Rightarrow> Canvas \<Rightarrow> Canvas" where
  "setFillStyle v c = c \<lparr> state := (state c) \<lparr> fillStyle := v \<rparr> \<rparr>"

definition setFont :: "string \<Rightarrow> Canvas \<Rightarrow> Canvas" where
  "setFont v c = c \<lparr> state := (state c) \<lparr> font := v \<rparr> \<rparr>"

definition setTextAlign :: "string \<Rightarrow> Canvas \<Rightarrow> Canvas" where
  "setTextAlign v c = c \<lparr> state := (state c) \<lparr> textAlign := v \<rparr> \<rparr>"

definition ctx_save :: "Canvas \<Rightarrow> Canvas" where
  "ctx_save c = c \<lparr> saved := state c # saved c \<rparr>"

definition ctx_restore :: "Canvas \<Rightarrow> Canvas" where
  "ctx_restore c = (case saved c of [] \<Rightarrow> c | s # rest \<Rightarrow> c \<lparr> state := s, saved := rest \<rparr>)"

definition ctx_translate :: "real \<Rightarrow> real \<Rightarrow> Canvas \<Rightarrow> Canvas" where
  "ctx_translate tx ty c =
     c \<lparr> state := (state c) \<lparr> transform := transform (state c) @ [Translate tx ty] \<rparr> \<rparr>"

definition ctx_rotate :: "real \<Rightarrow> Canvas \<Rightarrow> Canvas" where
  "ctx_rotate angle c =
     c \<lparr> state := (state c) \<lparr> transform := transform (state c) @ [Rotate angle] \<rparr> \<rparr>"

definition fillRect :: "real \<Rightarrow> real \<Rightarrow> real \<Rightarrow> real \<Rightarrow> Canvas \<Rightarrow> Canvas" where
  "fillRect rx ry w h c = c \<lparr> ops := ops c @ [FillRect (state c) rx ry w h] \<rparr>"

text \<open>\<open>drawImage\<close> with a destination rectangle, and with a source rectangle as well.\<close>

definition drawImage :: "Image \<Rightarrow> real \<Rightarrow> real \<Rightarrow> real \<Rightarrow> real \<Rightarrow> Canvas \<Rightarrow> Canvas" where
  "drawImage img dx dy dw dh c = c \<lparr> ops := ops c @ [DrawImage (state c) img None dx dy dw dh] \<rparr>"

definition drawImageCropped ::
  "Image \<Rightarrow> real \<times> real \<times> real \<times> real \<Rightarrow> real \<Rightarrow> real \<Rightarrow> real \<Rightarrow> real \<Rightarrow> Canvas \<Rightarrow> Canvas" where
  "drawImageCropped img crop dx dy dw dh c =
     c \<lparr> ops := ops c @ [DrawImage (state c) img (Some crop) dx dy dw dh] \<rparr>"

definition fillText :: "string \<Rightarrow> real \<Rightarrow> real \<Rightarrow> Canvas \<Rightarrow> Canvas" where
  "fillText t tx ty c = c \<lparr> ops := ops c @ [FillText (state c) t tx ty] \<rparr>"

text \<open>What the log says about a command: the state it was drawn in, and the image drawn.\<close>

fun opState :: "DrawOp \<Rightarrow> DrawState" where
  "opState (FillRect s rx ry w h) = s"
| "opState (DrawImage s img crop dx dy dw dh) = s"
| "opState (FillText s t tx ty) = s"

fun drawnSource :: "DrawOp \<Rightarrow> string list" where
  "drawnSource (DrawImage s img crop dx dy dw dh) = [img_src img]"
| "drawnSource (FillRect s rx ry w h) = []"
| "drawnSource (FillText s t tx ty) = []"

definition drawnSources :: "Canvas \<Rightarrow> string list" where
  "drawnSources c = concat (map drawnSource (ops c))"



text \<open>
  The hidden export canvas belongs to the strip view of the component: the placeholder is
  returned before it is mounted, and \<open>exportCanvasRef.current\<close> is null then.
\<close>

definition exportCanvasRef :: "PhotoProp \<Rightarrow> Canvas \<Rightarrow> Canvas option" where
  "exportCanvasRef photo canvas =
     (case PhotoCanvas_view photo of Placeholder message \<Rightarrow> None | PhotoStrip \<Rightarrow> Some canvas)"

section \<open>The environment of a render\<close>

text \<open>
  A render reads two things it does not own: the decoding of an image source (\<open>loadImage\<close>
  resolves with the image, whose \<open>src\<close> is the one requested, or rejects) and the clock,
  through \<open>toLocaleDateString\<close> and \<open>toLocaleTimeString\<close>.
\<close>

record Env =
  decode :: "string \<Rightarrow> (nat \<times> nat) option"
  localeDate :: string
  localeTime :: string

definition loadImage :: "Env \<Rightarrow> string \<Rightarrow> Image option" where
  "loadImage env src =
     (case decode env src of
        None \<Rightarrow> None
      | Some (w, h) \<Rightarrow> Some \<lparr> img_src = src, img_width = w, img_height = h \<rparr>)"

section \<open>The export render: PhotoCanvas.drawStripToCanvas\<close>

definition mathRound :: "real \<Rightarrow> real" where
  "mathRound v = of_int \<lfloor>v + 1 / 2\<rfloor>"

definition stripSize :: "nat \<Rightarrow> Layout \<Rightarrow> real \<times> real" where
  "stripSize photoCount layout =
     (if photoCount = 1 then (200, 100)
      else if layout = Horizontal then (420, 200)
      else if layout = Grid then (320, 320)
      else (let boxWidth = 420;
                boxHeight = mathRound (boxWidth * 9 / 13);
                topMargin = 40
            in (480, topMargin + boxHeight * real photoCount + (real photoCount - 1) + 350)))"

definition backgroundFill :: "Layout \<Rightarrow> string \<Rightarrow> real \<Rightarrow> real \<Rightarrow> FillStyle" where
  "backgroundFill layout stripColor w h =
     (if layout = Grid then Colour ''#f8f9fa''
      else if layout = Horizontal
        then LinearGradient 0 0 w h [(0, ''#ffffff''), (1, ''#f8f9fa'')]
      else if layout = Vertical then Colour stripColor
      else Colour ''#ffffff'')"

text \<open>Sizing the canvas and filling the background.\<close>

definition stripBackground :: "nat \<Rightarrow> Layout \<Rightarrow> string \<Rightarrow> Canvas \<Rightarrow> Canvas" where
  "stripBackground photoCount layout stripColor canvas =
     (case stripSize photoCount layout of (w, h) \<Rightarrow>
        fillRect 0 0 w h (setFillStyle (backgroundFill layout stripColor w h) (resizeCanvas w h canvas)))"

text \<open>The source of slot \<open>i\<close>.\<close>

definition photoSrc :: "PhotoProp \<Rightarrow> nat \<Rightarrow> string option" where
  "photoSrc photo i =
     (case photo of
        PhotoArray ps \<Rightarrow>
          orElse (orElse (srcAt ps i) (srcAt ps 0)) (map_option originalSrc (primaryPhoto photo))
      | OnePhoto p \<Rightarrow> map_option originalSrc (primaryPhoto photo))"

text \<open>
  The crop window \<open>(sx, sy, sWidth, sHeight)\<close> of a vertical slot.  The division is the
  real one: for an image of height 0 the code divides by zero where HOL yields 0, so the
  window is only meaningful for positive dimensions.
\<close>

definition cropWindow :: "real \<Rightarrow> real \<Rightarrow> real \<times> real \<times> real \<times> real" where
  "cropWindow imgWidth imgHeight =
     (let targetAspect = 3 / 2;
          imgAspect = imgWidth / imgHeight
      in if imgAspect > targetAspect
         then (let sHeight = imgHeight; sWidth = imgHeight * targetAspect
               in ((imgWidth - sWidth) / 2, 0, sWidth, sHeight))
         else (let sWidth = imgWidth; sHeight = imgWidth / targetAspect
               in (0, (imgHeight - sHeight) / 2, sWidth, sHeight)))"

text \<open>
  Drawing the loaded image of slot \<open>i\<close>.  The layout is one of three kinds, so the fourth
  branch of the code (\<open>photoCount === 1\<close> after all three kinds) is never taken.
\<close>

definition drawSlot :: "Layout \<Rightarrow> nat \<Rightarrow> real \<Rightarrow> real \<Rightarrow> nat \<Rightarrow> Image \<Rightarrow> Canvas \<Rightarrow> Canvas" where
  "drawSlot layout photoCount w h i img c =
     (case layout of
        Vertical \<Rightarrow>
          (let boxWidth = 420;
               boxHeight = mathRound (boxWidth * 2 / 3);
               spacing = 17;
               topMargin = 40;
               dx = (w - boxWidth) / 2;
               dy = topMargin + real i * (boxHeight + spacing)
           in drawImageCropped img (cropWindow (real (img_width img)) (real (img_height img)))
                dx dy boxWidth boxHeight
                (fillRect dx dy boxWidth boxHeight (setFillStyle (Colour ''#fff'') c)))
      | Grid \<Rightarrow>
          (let col = i mod 2;
               row = i div 2;
               dx = 16 + real col * 160;
               dy = 16 + real row * 160
           in drawImage img dx dy 128 128 (fillRect dx dy 128 128 (setFillStyle (Colour ''#fff'') c)))
      | Horizontal \<Rightarrow>
          (let photoWidth = (w - 16) / real photoCount;
               dx = 8 + real i * photoWidth;
               dy = 8;
               dw = photoWidth - 4;
               dh = h - 40
           in drawImage img dx dy dw dh (fillRect dx dy dw dh (setFillStyle (Colour ''#fff'') c))))"


text \<open>
  One turn of the photo loop: a slot without a source or whose image fails to load is
  skipped.  \<open>canvasWidth\<close> and \<open>canvasHeight\<close> are the size the canvas was given before the
  loop, which no drawing command changes.
\<close>

definition photoStep :: "Env \<Rightarrow> PhotoProp \<Rightarrow> Layout \<Rightarrow> nat \<Rightarrow> Canvas \<Rightarrow> nat \<Rightarrow> Canvas" where
  "photoStep env photo layout photoCount c i =
     (case photoSrc photo i of
        None \<Rightarrow> c
      | Some src \<Rightarrow>
          if src = [] then c
          else (case loadImage env src of
                  None \<Rightarrow> c
                | Some img \<Rightarrow> drawSlot layout photoCount (cv_width c) (cv_height c) i img c))"


definition photoLoop :: "Env \<Rightarrow> PhotoProp \<Rightarrow> Layout \<Rightarrow> nat \<Rightarrow> Canvas \<Rightarrow> Canvas" where
  "photoLoop env photo layout photoCount c =
     foldl (photoStep env photo layout photoCount) c [0..<photoCount]"

text \<open>
  The scoped drawing of one sticker, as \<open>drawStripToCanvas\<close> and
  \<open>ImageProcessor.addStickers\<close> both write it: save, translate to the centre, rotate, draw
  the image centred, restore.
\<close>

definition drawSticker :: "Image \<Rightarrow> Sticker \<Rightarrow> Canvas \<Rightarrow> Canvas" where
  "drawSticker stickerImg sticker c =
     ctx_restore
       (drawImage stickerImg (- st_width sticker / 2) (- st_height sticker / 2)
          (st_width sticker) (st_height sticker)
          (ctx_rotate ((st_rotation sticker * pi) / 180)
             (ctx_translate (st_x sticker + st_width sticker / 2) (st_y sticker + st_height sticker / 2)
                (ctx_save c))))"

text \<open>One turn of the sticker loop: the load is inside the \<open>try\<close>, before the \<open>save\<close>.\<close>

definition stickerStep :: "Env \<Rightarrow> Canvas \<Rightarrow> Sticker \<Rightarrow> Canvas" where
  "stickerStep env c sticker =
     (case loadImage env (st_src sticker) of
        None \<Rightarrow> c
      | Some stickerImg \<Rightarrow> drawSticker stickerImg sticker c)"

definition stickerLoop :: "Env \<Rightarrow> Sticker list \<Rightarrow> Canvas \<Rightarrow> Canvas" where
  "stickerLoop env stickers c = foldl (stickerStep env) c stickers"

definition footerText :: "Env \<Rightarrow> string" where
  "footerText env = ''Adelaide - '' @ localeDate env @ '', '' @ localeTime env"

definition drawFooter :: "Env \<Rightarrow> Canvas \<Rightarrow> Canvas" where
  "drawFooter env c =
     fillText (footerText env) (cv_width c / 2) (cv_height c - 73)
       (setTextAlign ''center'' (setFont ''17px Arial'' (setFillStyle (Colour ''#6b7280'') c)))"

text \<open>
  The whole render.  \<open>exportCanvas\<close> is the hidden canvas of the component, absent before
  it is mounted; \<open>appliedFilters\<close> is among the values the callback closes over.
\<close>

definition drawStripToCanvas ::
  "Env \<Rightarrow> Canvas option \<Rightarrow> PhotoProp \<Rightarrow> FrameLayout option \<Rightarrow> Sticker list \<Rightarrow> AppliedFilters
     \<Rightarrow> string \<Rightarrow> Canvas option" where
  "drawStripToCanvas env exportCanvas photo selectedLayout stickers appliedFilters stripColor =
     (case exportCanvas of
        None \<Rightarrow> None
      | Some canvas \<Rightarrow>
          (let photoCount = layoutPhotoCount selectedLayout;
               layout = layoutKind selectedLayout
           in Some (drawFooter env
                (stickerLoop env stickers
                   (photoLoop env photo layout photoCount
                      (stripBackground photoCount layout stripColor canvas))))))"

section \<open>ImageProcessor.addStickers\<close>

text \<open>\<open>[...stickers].sort((a, b) => a.zIndex - b.zIndex)\<close>: a stable sort by z-index.\<close>

definition sortedStickers :: "Sticker list \<Rightarrow> Sticker list" where
  "sortedStickers stickers = sort_key st_zIndex stickers"

section \<open>Concrete inputs\<close>

text \<open>
  An environment in which every source decodes to a 1920 by 1080 image, read at two
  different times of the day; the export canvas as the browser creates it; a photo and a
  sticker with the field values of \<open>handleAddSticker\<close>.
\<close>

definition sampleDecode :: "string \<Rightarrow> (nat \<times> nat) option" where
  "sampleDecode src = Some (1920, 1080)"

definition morning :: Env where
  "morning = \<lparr> decode = sampleDecode, localeDate = ''11/2/2026'', localeTime = ''9:00:00 AM'' \<rparr>"

definition evening :: Env where
  "evening = \<lparr> decode = sampleDecode, localeDate = ''11/2/2026'', localeTime = ''6:30:00 PM'' \<rparr>"

definition blankCanvas :: Canvas where
  "blankCanvas = \<lparr> cv_width = 300, cv_height = 150, state = defaultState, saved = [], ops = [] \<rparr>"

definition samplePhoto :: "string \<Rightarrow> Photo" where
  "samplePhoto src = \<lparr> photo_id = src, originalSrc = src, processedSrc = None \<rparr>"

definition sampleSticker :: "string \<Rightarrow> real \<Rightarrow> Sticker" where
  "sampleSticker n z = \<lparr> st_id = n, st_src = n, st_name = n, st_x = 100, st_y = 100,
     st_width = 60, st_height = 60, st_rotation = 0, st_zIndex = z \<rparr>"

fun drawnFilter :: "DrawOp \<Rightarrow> string list" where
  "drawnFilter (DrawImage s img crop dx dy dw dh) = [ctxFilter s]"
| "drawnFilter (FillRect s rx ry w h) = []"
| "drawnFilter (FillText s t tx ty) = []"

definition drawnFilters :: "Canvas \<Rightarrow> string list" where
  "drawnFilters c = concat (map drawnFilter (ops c))"

text \<open>No command of the log, nor the current or a saved state, carries a filter.\<close>

definition unfiltered :: "Canvas \<Rightarrow> bool" where
  "unfiltered c =
     (ctxFilter (state c) = ''none''
      \<and> list_all (\<lambda>s. ctxFilter s = ''none'') (saved c)
      \<and> list_all (\<lambda>op. ctxFilter (opState op) = ''none'') (ops c))"

section \<open>Properties of the filter panel and the filter strings\<close>

lemma foldl_append_acc: "foldl (\<lambda>s e. s @ g e) s0 xs = s0 @ concat (map g xs)"
  by (induction xs arbitrary: s0) simp_all

lemma applyFilters_basic_acc: "applyFilters_basic s b = s @ applyFilters_basic [] b"
  by (simp add: applyFilters_basic_def split: option.split)

lemma foldl_applyFilters_basic:
  "foldl applyFilters_basic s bs = s @ concat (map (applyFilters_basic []) bs)"
proof (induction bs arbitrary: s)
  case Nil
  show ?case by simp
next
  case (Cons b bs)
  show ?case
    using Cons.IH [of "applyFilters_basic s b"]
    by (simp add: applyFilters_basic_acc [of s b])
qed

lemma toggleSequence_basic:
  "distinct fs \<Longrightarrow> set fs \<inter> set (basic a) = {} \<Longrightarrow>
     basic (toggleSequence fs a) = basic a @ fs \<and> advanced (toggleSequence fs a) = advanced a"
proof (induction fs arbitrary: a)
  case Nil
  show ?case by (simp add: toggleSequence_def)
next
  case (Cons f fs)
  let ?a = "handleBasicFilterToggle f a"
  from Cons.prems have fresh: "f \<notin> set (basic a)" by auto
  then have b: "basic ?a = basic a @ [f]" and ad: "advanced ?a = advanced a"
    by (simp_all add: handleBasicFilterToggle_def)
  from Cons.prems b have "distinct fs" "set fs \<inter> set (basic ?a) = {}" by auto
  then have "basic (toggleSequence fs ?a) = basic ?a @ fs \<and> advanced (toggleSequence fs ?a) = advanced ?a"
    by (rule Cons.IH)
  moreover have "toggleSequence (f # fs) a = toggleSequence fs ?a"
    by (simp add: toggleSequence_def)
  ultimately show ?case using b ad by simp
qed


lemma advancedStyle_declared:
  assumes "f \<in> set ADVANCED_FILTERS"
    and "af_name f \<in> {''brightness'', ''contrast'', ''saturate'', ''blur''}"
  shows "advancedStyle fmt (af_name f, v) = (af_name f @ ''('' @ fmt v @ af_unit f @ '')'') @ '' ''"
proof -
  from assms(1) consider "f = ADVANCED_FILTERS ! 0" | "f = ADVANCED_FILTERS ! 1" | "f = ADVANCED_FILTERS ! 2"
    | "f = ADVANCED_FILTERS ! 3" | "f = ADVANCED_FILTERS ! 4" | "f = ADVANCED_FILTERS ! 5"
    unfolding ADVANCED_FILTERS_def by fastforce
  then show ?thesis
    using assms(2) by cases (simp_all add: ADVANCED_FILTERS_def advancedStyle_def)
qed


lemma dropWhile_keeps:
  assumes "m \<noteq> []" "\<not> P (hd m)"
  shows "\<exists>p'. dropWhile P (p @ m @ q) = p' @ m @ q"
proof (cases "\<forall>x \<in> set p. P x")
  case True
  from assms have "dropWhile P (m @ q) = m @ q" by (cases m) simp_all
  with True have "dropWhile P (p @ m @ q) = [] @ m @ q" by (simp add: dropWhile_append)
  then show ?thesis by blast
next
  case False
  then have "dropWhile P (p @ m @ q) = dropWhile P p @ m @ q"
    using dropWhile_append1 by (metis)
  then show ?thesis by blast
qed

lemma trim_keeps:
  assumes "m \<noteq> []" "\<not> isWhiteSpace (hd m)" "\<not> isWhiteSpace (last m)"
  shows "\<exists>p' q'. trim (p @ m @ q) = p' @ m @ q'"
proof -
  from dropWhile_keeps [of m isWhiteSpace p q] assms obtain p' where
    1: "dropWhile isWhiteSpace (p @ m @ q) = p' @ m @ q" by blast
  have "rev m \<noteq> []" "\<not> isWhiteSpace (hd (rev m))"
    using assms by (simp_all add: hd_rev)
  from dropWhile_keeps [of "rev m" isWhiteSpace "rev q" "rev p'"] this obtain q' where
    2: "dropWhile isWhiteSpace (rev q @ rev m @ rev p') = q' @ rev m @ rev p'" by blast
  have "trim (p @ m @ q) = p' @ m @ rev q'"
    by (simp add: trim_def 1 2)
  then show ?thesis by blast
qed


lemma fmtWhole_0: "fmtWhole 0 = ''0''"
  by (simp add: fmtWhole_def digitsOf.simps [of 0])












text \<open>
  Claim C4, as stated, fails: toggling \<open>sepia\<close> then \<open>grayscale\<close> gives another filter
  string than toggling \<open>grayscale\<close> then \<open>sepia\<close>, in the export filter string of
  \<open>applyFilters\<close> and in the preview style of \<open>getImageStyle\<close> alike.
\<close>
theorem C4_toggle_order_counterexample:
  "applyFilters_filterString fmtWhole (toggleSequence [''sepia'', ''grayscale''] initialFilters)
     \<noteq> applyFilters_filterString fmtWhole (toggleSequence [''grayscale'', ''sepia''] initialFilters)
   \<and> getImageStyle fmtWhole (toggleSequence [''sepia'', ''grayscale''] initialFilters)
     \<noteq> getImageStyle fmtWhole (toggleSequence [''grayscale'', ''sepia''] initialFilters)
   \<and> applyFilters_filterString fmtWhole (toggleSequence [''sepia'', ''grayscale''] initialFilters)
     = ''sepia(100%) grayscale(100%)''
   \<and> applyFilters_filterString fmtWhole (toggleSequence [''grayscale'', ''sepia''] initialFilters)
     = ''grayscale(100%) sepia(100%)''"
  by (simp add: toggleSequence_def handleBasicFilterToggle_def initialFilters_def
      applyFilters_filterString_def applyFilters_basic_def BASIC_FILTERS_def
      getImageStyle_def imageFilter_def basicStyle_def trim_def isWhiteSpace_def)

text \<open>
  Claim C4, amended: the basic filters are applied in the order in which they were toggled.
  After toggling the distinct filters \<open>fs\<close> from the empty filter set, \<open>basic\<close> is \<open>fs\<close>
  itself, and both filter strings are the concatenation, in that order, of what each
  filter contributes.
\<close>
theorem C4_basic_filters_in_toggle_order:
  assumes "distinct fs"
  shows "basic (toggleSequence fs initialFilters) = fs
     \<and> applyFilters_filterString fmt (toggleSequence fs initialFilters)
         = trim (concat (map (applyFilters_basic []) fs))
     \<and> imageFilter fmt (toggleSequence fs initialFilters) = concat (map basicStyle fs)"
proof -
  have "set fs \<inter> set (basic initialFilters) = {}"
    by (simp add: initialFilters_def)
  with assms have "basic (toggleSequence fs initialFilters) = basic initialFilters @ fs
      \<and> advanced (toggleSequence fs initialFilters) = advanced initialFilters"
    by (rule toggleSequence_basic)
  then have b: "basic (toggleSequence fs initialFilters) = fs"
    and a: "advanced (toggleSequence fs initialFilters) = []"
    by (simp_all add: initialFilters_def)
  have "applyFilters_filterString fmt (toggleSequence fs initialFilters)
         = trim (concat (map (applyFilters_basic []) fs))"
    by (simp add: applyFilters_filterString_def a b foldl_applyFilters_basic)
  moreover have "imageFilter fmt (toggleSequence fs initialFilters) = concat (map basicStyle fs)"
    by (simp add: imageFilter_def a b foldl_append_acc)
  ultimately show ?thesis using b by simp
qed

text \<open>Claim C4, amended, at a concrete input: \<open>sepia\<close> toggled before \<open>grayscale\<close>.\<close>
theorem C4_basic_filters_in_toggle_order_witness:
  "distinct [''sepia'', ''grayscale'']
   \<and> basic (toggleSequence [''sepia'', ''grayscale''] initialFilters) = [''sepia'', ''grayscale'']
   \<and> imageFilter fmtWhole (toggleSequence [''sepia'', ''grayscale''] initialFilters)
       = ''sepia(100%) grayscale(100%) ''"
proof -
  have d: "distinct [''sepia'', ''grayscale'']" by simp
  from C4_basic_filters_in_toggle_order [OF d, of fmtWhole] d
  show ?thesis by (simp add: basicStyle_def)
qed

text \<open>
  Claim C10, as stated, fails for \<open>hue-rotate\<close>: with a stored 0 the preview filter of
  \<open>getImageStyle\<close> is empty (the style is \<open>none\<close>), so it does not use the stored value.
\<close>
theorem C10_hue_rotate_counterexample:
  "map_of (advanced \<lparr>basic = [], advanced = [(''hue-rotate'', 0)]\<rparr>) ''hue-rotate'' = Some 0
   \<and> imageFilter fmtWhole \<lparr>basic = [], advanced = [(''hue-rotate'', 0)]\<rparr> = []
   \<and> getImageStyle fmtWhole \<lparr>basic = [], advanced = [(''hue-rotate'', 0)]\<rparr> = ''none''"
  by (simp add: imageFilter_def getImageStyle_def advancedStyle_def trim_def)

lemma imageFilter_entry:
  assumes "(k, v) \<in> set (advanced af)"
  shows "\<exists>p q. imageFilter fmt af = p @ advancedStyle fmt (k, v) @ q"
proof -
  from assms obtain xs ys where "advanced af = xs @ (k, v) # ys"
    by (meson split_list)
  then have "imageFilter fmt af =
      (concat (map basicStyle (basic af)) @ concat (map (advancedStyle fmt) xs))
        @ advancedStyle fmt (k, v) @ concat (map (advancedStyle fmt) ys)"
    by (simp add: imageFilter_def foldl_append_acc)
  then show ?thesis by blast
qed

lemma getImageStyle_keeps:
  assumes "imageFilter fmt af = p @ m @ q" "m \<noteq> []"
    "\<not> isWhiteSpace (hd m)" "\<not> isWhiteSpace (last m)"
  shows "\<exists>p' q'. getImageStyle fmt af = p' @ m @ q'"
proof -
  from trim_keeps [of m p q] assms obtain p' q' where
    t: "trim (imageFilter fmt af) = p' @ m @ q'" by auto
  with assms(2) have "trim (imageFilter fmt af) \<noteq> []" by simp
  then have "getImageStyle fmt af = trim (imageFilter fmt af)"
    by (simp add: getImageStyle_def Let_def)
  with t have "getImageStyle fmt af = p' @ m @ q'" by simp
  then show ?thesis by (intro exI)
qed

text \<open>
  Claim C10, amended: for every declared advanced filter whose stored value is exactly 0,
  the slider value and the displayed number of the panel are the declared default value;
  for \<open>brightness\<close>, \<open>contrast\<close>, \<open>saturate\<close> and \<open>blur\<close> the preview style of
  \<open>getImageStyle\<close> contains the filter function with the raw stored value 0.
\<close>
theorem C10_stored_zero_shows_default:
  assumes "f \<in> set ADVANCED_FILTERS" and "map_of (advanced af) (af_name f) = Some 0"
  shows "sliderValue f af = af_defaultValue f
     \<and> sliderLabel fmt f af = fmt (af_defaultValue f) @ af_unit f
     \<and> (af_name f \<in> {''brightness'', ''contrast'', ''saturate'', ''blur''} \<longrightarrow>
          (\<exists>p q. getImageStyle fmt af = p @ (af_name f @ ''('' @ fmt 0 @ af_unit f @ '')'') @ q))"
proof -
  have v: "sliderValue f af = af_defaultValue f"
    using assms(2) by (simp add: sliderValue_def)
  have "\<exists>p q. getImageStyle fmt af = p @ (af_name f @ ''('' @ fmt 0 @ af_unit f @ '')'') @ q"
    if nm: "af_name f \<in> {''brightness'', ''contrast'', ''saturate'', ''blur''}"
  proof -
    let ?m = "af_name f @ ''('' @ fmt 0 @ af_unit f @ '')''"
    from assms(2) have "(af_name f, 0) \<in> set (advanced af)"
      by (rule map_of_SomeD)
    then obtain p q where pq: "imageFilter fmt af = p @ advancedStyle fmt (af_name f, 0) @ q"
      using imageFilter_entry by blast
    from assms(1) nm have "advancedStyle fmt (af_name f, 0) = ?m @ '' ''"
      by (rule advancedStyle_declared)
    with pq have 1: "imageFilter fmt af = p @ ?m @ ('' '' @ q)" by simp
    from nm have 2: "?m \<noteq> []" "\<not> isWhiteSpace (hd ?m)" "\<not> isWhiteSpace (last ?m)"
      by (auto simp: isWhiteSpace_def)
    from getImageStyle_keeps [OF 1 2] show ?thesis .
  qed
  with v show ?thesis by (simp add: sliderLabel_def)
qed

text \<open>Claim C10, amended, at a concrete input: \<open>brightness\<close> stored as 0.\<close>
theorem C10_stored_zero_shows_default_witness:
  "ADVANCED_FILTERS ! 0 \<in> set ADVANCED_FILTERS
   \<and> map_of (advanced \<lparr>basic = [], advanced = [(''brightness'', 0)]\<rparr>) (af_name (ADVANCED_FILTERS ! 0)) = Some 0
   \<and> sliderValue (ADVANCED_FILTERS ! 0) \<lparr>basic = [], advanced = [(''brightness'', 0)]\<rparr> = 100
   \<and> getImageStyle fmtWhole \<lparr>basic = [], advanced = [(''brightness'', 0)]\<rparr> = ''brightness(0%)''"
proof -
  have mem: "ADVANCED_FILTERS ! 0 \<in> set ADVANCED_FILTERS"
    by (simp add: ADVANCED_FILTERS_def)
  have st: "map_of (advanced \<lparr>basic = [], advanced = [(''brightness'', 0)]\<rparr>) (af_name (ADVANCED_FILTERS ! 0)) = Some 0"
    by (simp add: ADVANCED_FILTERS_def)
  have d: "af_defaultValue (ADVANCED_FILTERS ! 0) = 100"
    by (simp add: ADVANCED_FILTERS_def)
  have g: "getImageStyle fmtWhole \<lparr>basic = [], advanced = [(''brightness'', 0)]\<rparr> = ''brightness(0%)''"
    by (simp add: getImageStyle_def imageFilter_def advancedStyle_def fmtWhole_0 trim_def isWhiteSpace_def)
  from C10_stored_zero_shows_default [OF mem st, of fmtWhole] mem st d g
  show ?thesis by simp
qed

section \<open>Properties of the export render\<close>

lemma upt_3: "[0..<3] = [0, 1, 2]"
  by (simp add: upt_rec)

lemma mathRound_280: "mathRound 280 = 280"
proof -
  have "\<lfloor>(280::real) + 1 / 2\<rfloor> = 280"
    by (rule floor_unique) simp_all
  then show ?thesis by (simp add: mathRound_def)
qed

lemma mathRound_291: "mathRound (3780 / 13) = 291"
proof -
  have "\<lfloor>(3780::real) / 13 + 1 / 2\<rfloor> = 291"
    by (rule floor_unique) simp_all
  then show ?thesis by (simp add: mathRound_def)
qed

text \<open>The canvas of the default layout, three vertical slots, is 480 by 1265.\<close>

lemma stripSize_default: "stripSize (layoutPhotoCount None) (layoutKind None) = (480, 1265)"
  by (simp add: stripSize_def layoutPhotoCount_def layoutKind_def mathRound_291 Let_def)

lemmas canvas_defs = stripBackground_def stripSize_def backgroundFill_def resizeCanvas_def
  setFillStyle_def setFont_def setTextAlign_def fillRect_def fillText_def drawImage_def
  drawImageCropped_def ctx_save_def ctx_restore_def ctx_translate_def ctx_rotate_def

lemmas render_defs = drawStripToCanvas_def layoutPhotoCount_def layoutKind_def photoLoop_def
  stickerLoop_def photoStep_def photoSrc_def srcAt_def orElse_def primaryPhoto_def photos_def
  loadImage_def drawSlot_def stickerStep_def drawSticker_def drawFooter_def footerText_def

lemmas sample_defs = samplePhoto_def sampleSticker_def morning_def evening_def sampleDecode_def
  blankCanvas_def initialFilters_def

subsection \<open>Stickers\<close>

lemma drawSticker_frame:
  "state (drawSticker img sticker c) = state c"
  "saved (drawSticker img sticker c) = saved c"
  "cv_width (drawSticker img sticker c) = cv_width c"
  "cv_height (drawSticker img sticker c) = cv_height c"
  by (simp_all add: drawSticker_def ctx_restore_def drawImage_def ctx_rotate_def ctx_translate_def
      ctx_save_def)

lemma drawSticker_ops:
  "ops (drawSticker img sticker c) = ops c @
     [DrawImage ((state c) \<lparr> transform := transform (state c) @
          [Translate (st_x sticker + st_width sticker / 2) (st_y sticker + st_height sticker / 2),
           Rotate ((st_rotation sticker * pi) / 180)] \<rparr>)
        img None (- st_width sticker / 2) (- st_height sticker / 2) (st_width sticker) (st_height sticker)]"
  by (simp add: drawSticker_def ctx_restore_def drawImage_def ctx_rotate_def ctx_translate_def
      ctx_save_def)

text \<open>
  The sticker loop draws the stickers that load in the order of the list; the sorted copy
  of \<open>addStickers\<close> is ascending in z-index.
\<close>

lemma stickerStep_sources:
  "drawnSources (stickerStep env c sticker) = drawnSources c @
     (if decode env (st_src sticker) \<noteq> None then [st_src sticker] else [])"
  by (auto simp: stickerStep_def loadImage_def drawnSources_def drawSticker_def ctx_restore_def
      drawImage_def ctx_rotate_def ctx_translate_def ctx_save_def split: option.split)

lemma stickerLoop_sources:
  "drawnSources (stickerLoop env stickers c) = drawnSources c @
     filter (\<lambda>src. decode env src \<noteq> None) (map st_src stickers)"
  unfolding stickerLoop_def
proof (induction stickers arbitrary: c)
  case Nil
  show ?case by simp
next
  case (Cons s rest)
  show ?case
    using Cons.IH [of "stickerStep env c s"] by (simp add: stickerStep_sources)
qed

lemma sortedStickers_ascending:
  "sorted (map st_zIndex (sortedStickers stickers))
   \<and> set (sortedStickers stickers) = set stickers
   \<and> length (sortedStickers stickers) = length stickers"
  by (simp add: sortedStickers_def)

text \<open>
  Claim C9: a sticker draw leaves the drawing state, the stack of saved states and the
  size of the canvas as they were, whether the sticker image loads (one image is drawn,
  translated to the centre of the sticker and rotated) or fails to load (nothing is
  drawn); the same holds of the scoped drawing itself, which
  \<open>ImageProcessor.addStickers\<close> shares.
\<close>

theorem C9_sticker_draw_is_scoped:
  "state (stickerStep env c sticker) = state c
   \<and> saved (stickerStep env c sticker) = saved c
   \<and> cv_width (stickerStep env c sticker) = cv_width c
   \<and> cv_height (stickerStep env c sticker) = cv_height c
   \<and> ops (stickerStep env c sticker) =
       (case loadImage env (st_src sticker) of
          None \<Rightarrow> ops c
        | Some img \<Rightarrow> ops c @
            [DrawImage ((state c) \<lparr> transform := transform (state c) @
                 [Translate (st_x sticker + st_width sticker / 2) (st_y sticker + st_height sticker / 2),
                  Rotate ((st_rotation sticker * pi) / 180)] \<rparr>)
               img None (- st_width sticker / 2) (- st_height sticker / 2)
               (st_width sticker) (st_height sticker)])
   \<and> state (drawSticker stickerImg sticker c) = state c
   \<and> saved (drawSticker stickerImg sticker c) = saved c"
  by (simp add: stickerStep_def drawSticker_frame drawSticker_ops split: option.split)

text \<open>
  Claim C2 fails on the code at the sticker list with z-indices 3, 1, 2: the export render
  draws the three photo slots and then the stickers in the order of the list (\<open>a\<close>,
  \<open>b\<close>, \<open>c\<close>), where the ascending z-index order, which \<open>ImageProcessor.addStickers\<close>
  computes, is \<open>b\<close>, \<open>c\<close>, \<open>a\<close>.
\<close>

theorem C2_stickers_drawn_in_list_order:
  "map_option drawnSources
     (drawStripToCanvas morning (Some blankCanvas) (PhotoArray [samplePhoto ''photo-1'']) None
        [sampleSticker ''a'' 3, sampleSticker ''b'' 1, sampleSticker ''c'' 2] initialFilters ''#ffffff'')
     = Some [''photo-1'', ''photo-1'', ''photo-1'', ''a'', ''b'', ''c'']
   \<and> map st_src (sortedStickers [sampleSticker ''a'' 3, sampleSticker ''b'' 1, sampleSticker ''c'' 2])
     = [''b'', ''c'', ''a'']"
  by (simp add: render_defs sample_defs canvas_defs upt_3 drawnSources_def sortedStickers_def Let_def)

subsection \<open>Filters\<close>

text \<open>The export render never assigns \<open>ctx.filter\<close>: whatever the inputs, all it draws is unfiltered.\<close>

lemma unfiltered_background: "unfiltered (stripBackground n layout stripColor canvas)"
  by (simp add: unfiltered_def stripBackground_def resizeCanvas_def setFillStyle_def fillRect_def
      defaultState_def split: prod.split)

lemma unfiltered_drawSlot: "unfiltered c \<Longrightarrow> unfiltered (drawSlot layout n w h i img c)"
  by (cases layout)
    (simp_all add: unfiltered_def drawSlot_def drawImage_def drawImageCropped_def fillRect_def
      setFillStyle_def Let_def)

lemma unfiltered_photoStep: "unfiltered c \<Longrightarrow> unfiltered (photoStep env photo layout n c i)"
  by (simp add: photoStep_def unfiltered_drawSlot split: option.split)

lemma unfiltered_drawSticker: "unfiltered c \<Longrightarrow> unfiltered (drawSticker img sticker c)"
  by (simp add: unfiltered_def drawSticker_def ctx_restore_def drawImage_def ctx_rotate_def
      ctx_translate_def ctx_save_def)

lemma unfiltered_stickerStep: "unfiltered c \<Longrightarrow> unfiltered (stickerStep env c sticker)"
  by (simp add: stickerStep_def unfiltered_drawSticker split: option.split)

lemma unfiltered_foldl:
  assumes "\<And>d x. unfiltered d \<Longrightarrow> unfiltered (f d x)" and "unfiltered c"
  shows "unfiltered (foldl f c xs)"
  using assms(2) by (induction xs arbitrary: c) (simp_all add: assms(1))

lemma unfiltered_drawFooter: "unfiltered c \<Longrightarrow> unfiltered (drawFooter env c)"
  by (simp add: unfiltered_def drawFooter_def fillText_def setTextAlign_def setFont_def
      setFillStyle_def)

lemma export_draws_unfiltered:
  "drawStripToCanvas env exportCanvas photo selectedLayout stickers appliedFilters stripColor = Some c
     \<Longrightarrow> unfiltered c"
  by (auto simp: drawStripToCanvas_def Let_def photoLoop_def stickerLoop_def
      intro!: unfiltered_drawFooter unfiltered_foldl unfiltered_photoStep unfiltered_stickerStep
        unfiltered_background
      split: option.splits)

text \<open>
  Claim C1 fails on the code with \<open>grayscale\<close> toggled: every slot of the preview carries
  the style \<open>grayscale(100%)\<close>, and every image of the export is drawn with the filter of the
  context at \<open>none\<close>.
\<close>

theorem C1_export_ignores_filters:
  "previewSlots fmtWhole (PhotoArray [samplePhoto ''photo-1'']) None
       (handleBasicFilterToggle ''grayscale'' initialFilters)
     = [(Some ''photo-1'', ''grayscale(100%)''), (Some ''photo-1'', ''grayscale(100%)''),
        (Some ''photo-1'', ''grayscale(100%)'')]
   \<and> map_option drawnFilters
       (drawStripToCanvas morning (Some blankCanvas) (PhotoArray [samplePhoto ''photo-1'']) None []
          (handleBasicFilterToggle ''grayscale'' initialFilters) ''#ffffff'')
     = Some [''none'', ''none'', ''none'']
   \<and> applyFilters_filterString fmtWhole (handleBasicFilterToggle ''grayscale'' initialFilters)
     = ''grayscale(100%)''"
proof -
  have f: "handleBasicFilterToggle ''grayscale'' initialFilters = \<lparr>basic = [''grayscale''], advanced = []\<rparr>"
    by (simp add: handleBasicFilterToggle_def initialFilters_def)
  have 1: "previewSlots fmtWhole (PhotoArray [samplePhoto ''photo-1'']) None
       \<lparr>basic = [''grayscale''], advanced = []\<rparr>
     = [(Some ''photo-1'', ''grayscale(100%)''), (Some ''photo-1'', ''grayscale(100%)''),
        (Some ''photo-1'', ''grayscale(100%)'')]"
    by (simp add: previewSlots_def previewSrc_def layoutPhotoCount_def upt_3 srcAt_def orElse_def
        primaryPhoto_def photos_def samplePhoto_def getImageStyle_def imageFilter_def basicStyle_def
        trim_def isWhiteSpace_def)
  have 2: "map_option drawnFilters
       (drawStripToCanvas morning (Some blankCanvas) (PhotoArray [samplePhoto ''photo-1'']) None []
          \<lparr>basic = [''grayscale''], advanced = []\<rparr> ''#ffffff'')
     = Some [''none'', ''none'', ''none'']"
    by (simp add: render_defs sample_defs canvas_defs upt_3 drawnFilters_def defaultState_def Let_def)
  have 3: "applyFilters_filterString fmtWhole \<lparr>basic = [''grayscale''], advanced = []\<rparr> = ''grayscale(100%)''"
    by (simp add: applyFilters_filterString_def applyFilters_basic_def BASIC_FILTERS_def trim_def
        isWhiteSpace_def)
  from 1 2 3 show ?thesis by (simp only: f simp_thms)
qed

subsection \<open>The footer and the clock\<close>

lemma loadImage_decode: "decode env = decode env' \<Longrightarrow> loadImage env = loadImage env'"
  by (simp add: loadImage_def fun_eq_iff)

lemma photoLoop_decode:
  assumes "decode env = decode env'"
  shows "photoLoop env photo layout n c = photoLoop env' photo layout n c"
proof -
  have "photoStep env photo layout n = photoStep env' photo layout n"
    unfolding photoStep_def loadImage_decode [OF assms] by (rule refl)
  then show ?thesis by (simp add: photoLoop_def)
qed

lemma stickerLoop_decode:
  assumes "decode env = decode env'"
  shows "stickerLoop env stickers c = stickerLoop env' stickers c"
proof -
  have "stickerStep env = stickerStep env'"
    unfolding stickerStep_def loadImage_decode [OF assms] by (rule refl)
  then show ?thesis by (simp add: stickerLoop_def)
qed

lemma drawFooter_text:
  "footerText env = footerText env' \<Longrightarrow> drawFooter env c = drawFooter env' c"
  by (simp add: drawFooter_def)

text \<open>
  Claim C5, as stated, fails: the same layout, photos, filters and stickers rendered in the
  morning and in the evening give two different outputs, since the footer shows the time.
\<close>

theorem C5_two_renders_differ_counterexample:
  "drawStripToCanvas morning (Some blankCanvas) (PhotoArray [samplePhoto ''photo-1'']) None
       [sampleSticker ''a'' 1] initialFilters ''#ffffff''
   \<noteq> drawStripToCanvas evening (Some blankCanvas) (PhotoArray [samplePhoto ''photo-1'']) None
       [sampleSticker ''a'' 1] initialFilters ''#ffffff''"
  by (simp add: render_defs sample_defs canvas_defs upt_3 defaultState_def Let_def)

text \<open>
  Claim C5, amended: for a fixed layout, photo list, filter set, sticker list and strip
  colour, two renders in which the same image sources decode the same way are the same
  canvas up to the footer, each render drawing its own footer text last; when the two
  renders read the same date and time, their outputs are identical.
\<close>

theorem C5_renders_agree_up_to_footer:
  assumes "decode env = decode env'"
  shows "(\<exists>body.
       drawStripToCanvas env (Some canvas) photo selectedLayout stickers appliedFilters stripColor
         = Some (drawFooter env body)
     \<and> drawStripToCanvas env' (Some canvas) photo selectedLayout stickers appliedFilters stripColor
         = Some (drawFooter env' body))
   \<and> (footerText env = footerText env' \<longrightarrow>
       drawStripToCanvas env (Some canvas) photo selectedLayout stickers appliedFilters stripColor
         = drawStripToCanvas env' (Some canvas) photo selectedLayout stickers appliedFilters stripColor)"
proof -
  let ?n = "layoutPhotoCount selectedLayout" and ?l = "layoutKind selectedLayout"
  let ?body = "\<lambda>e. stickerLoop e stickers (photoLoop e photo ?l ?n (stripBackground ?n ?l stripColor canvas))"
  have same: "?body env = ?body env'"
    by (simp add: photoLoop_decode [OF assms] stickerLoop_decode [OF assms])
  have r: "drawStripToCanvas e (Some canvas) photo selectedLayout stickers appliedFilters stripColor
      = Some (drawFooter e (?body e))" for e
    by (simp add: drawStripToCanvas_def Let_def)
  have "drawStripToCanvas env (Some canvas) photo selectedLayout stickers appliedFilters stripColor
         = Some (drawFooter env (?body env))
     \<and> drawStripToCanvas env' (Some canvas) photo selectedLayout stickers appliedFilters stripColor
         = Some (drawFooter env' (?body env))"
    using r [of env] r [of env'] same by simp
  then have first: "\<exists>body.
       drawStripToCanvas env (Some canvas) photo selectedLayout stickers appliedFilters stripColor
         = Some (drawFooter env body)
     \<and> drawStripToCanvas env' (Some canvas) photo selectedLayout stickers appliedFilters stripColor
         = Some (drawFooter env' body)"
    by (rule exI)
  have second: "drawStripToCanvas env (Some canvas) photo selectedLayout stickers appliedFilters stripColor
         = drawStripToCanvas env' (Some canvas) photo selectedLayout stickers appliedFilters stripColor"
    if "footerText env = footerText env'"
    using r [of env] r [of env'] same drawFooter_text [OF that] by simp
  from first second show ?thesis by blast
qed

text \<open>Claim C5, amended, at a concrete input: the morning and the evening render of one strip.\<close>

theorem C5_renders_agree_up_to_footer_witness:
  "decode morning = decode evening
   \<and> (\<exists>body.
       drawStripToCanvas morning (Some blankCanvas) (PhotoArray [samplePhoto ''photo-1'']) None
           [sampleSticker ''a'' 1] initialFilters ''#ffffff''
         = Some (drawFooter morning body)
     \<and> drawStripToCanvas evening (Some blankCanvas) (PhotoArray [samplePhoto ''photo-1'']) None
           [sampleSticker ''a'' 1] initialFilters ''#ffffff''
         = Some (drawFooter evening body))"
proof -
  have d: "decode morning = decode evening"
    by (simp add: morning_def evening_def)
  from C5_renders_agree_up_to_footer [OF d, of blankCanvas "PhotoArray [samplePhoto ''photo-1'']" None
      "[sampleSticker ''a'' 1]" initialFilters "''#ffffff''"] d
  show ?thesis by blast
qed

subsection \<open>The crop window of a vertical slot\<close>

text \<open>
  Claim C6: in the vertical layout the image of a slot is drawn from the crop window
  computed from its own width and height, and for positive width and height that window
  has the aspect ratio 3:2 and is centred: when the source is wider than 3:2 it spans the
  whole height with equal trims left and right, otherwise it spans the whole width with
  equal trims at the top and the bottom.
\<close>

theorem C6_vertical_crop_is_centered_3_2:
  assumes "0 < img_width img" and "0 < img_height img"
  shows "ops (drawSlot Vertical photoCount w h i img c) = ops c @
       [FillRect ((state c) \<lparr> fillStyle := Colour ''#fff'' \<rparr>)
          ((w - 420) / 2) (40 + real i * (280 + 17)) 420 280,
        DrawImage ((state c) \<lparr> fillStyle := Colour ''#fff'' \<rparr>) img
          (Some (cropWindow (real (img_width img)) (real (img_height img))))
          ((w - 420) / 2) (40 + real i * (280 + 17)) 420 280]
   \<and> (case cropWindow (real (img_width img)) (real (img_height img)) of
        (sx, sy, sWidth, sHeight) \<Rightarrow>
          sWidth / sHeight = 3 / 2
          \<and> (if real (img_width img) / real (img_height img) > 3 / 2
             then sy = 0 \<and> sx = (real (img_width img) - sWidth) / 2
                  \<and> sHeight = real (img_height img)
             else sx = 0 \<and> sy = (real (img_height img) - sHeight) / 2
                  \<and> sWidth = real (img_width img)))"
proof -
  have draw: "ops (drawSlot Vertical photoCount w h i img c) = ops c @
       [FillRect ((state c) \<lparr> fillStyle := Colour ''#fff'' \<rparr>)
          ((w - 420) / 2) (40 + real i * (280 + 17)) 420 280,
        DrawImage ((state c) \<lparr> fillStyle := Colour ''#fff'' \<rparr>) img
          (Some (cropWindow (real (img_width img)) (real (img_height img))))
          ((w - 420) / 2) (40 + real i * (280 + 17)) 420 280]"
    by (simp add: drawSlot_def mathRound_280 drawImageCropped_def fillRect_def setFillStyle_def Let_def)
  from assms have pos: "0 < real (img_width img)" "0 < real (img_height img)"
    by simp_all
  have crop: "case cropWindow (real (img_width img)) (real (img_height img)) of
        (sx, sy, sWidth, sHeight) \<Rightarrow>
          sWidth / sHeight = 3 / 2
          \<and> (if real (img_width img) / real (img_height img) > 3 / 2
             then sy = 0 \<and> sx = (real (img_width img) - sWidth) / 2
                  \<and> sHeight = real (img_height img)
             else sx = 0 \<and> sy = (real (img_height img) - sHeight) / 2
                  \<and> sWidth = real (img_width img))"
    using pos by (simp add: cropWindow_def Let_def)
  from draw crop show ?thesis by (rule conjI)
qed

text \<open>Claim C6 at a concrete input: a 1920 by 1080 image, wider than 3:2, is cropped to 1620 by 1080.\<close>

theorem C6_vertical_crop_is_centered_3_2_witness:
  "0 < img_width \<lparr>img_src = ''photo-1'', img_width = 1920, img_height = 1080\<rparr>
   \<and> 0 < img_height \<lparr>img_src = ''photo-1'', img_width = 1920, img_height = 1080\<rparr>
   \<and> cropWindow 1920 1080 = (150, 0, 1620, 1080)
   \<and> (case cropWindow 1920 1080 of (sx, sy, sWidth, sHeight) \<Rightarrow> sWidth / sHeight = 3 / 2)"
proof -
  let ?img = "\<lparr>img_src = ''photo-1'', img_width = 1920, img_height = 1080\<rparr>"
  have a: "0 < img_width ?img" and b: "0 < img_height ?img"
    by simp_all
  have c: "cropWindow 1920 1080 = (150, 0, 1620, 1080)"
    by (simp add: cropWindow_def Let_def)
  note T = C6_vertical_crop_is_centered_3_2 [OF a b, of 3 480 1265 0 blankCanvas]
  from T have "case cropWindow (real (img_width ?img)) (real (img_height ?img)) of
      (sx, sy, sWidth, sHeight) \<Rightarrow>
        sWidth / sHeight = 3 / 2
        \<and> (if real (img_width ?img) / real (img_height ?img) > 3 / 2
           then sy = 0 \<and> sx = (real (img_width ?img) - sWidth) / 2 \<and> sHeight = real (img_height ?img)
           else sx = 0 \<and> sy = (real (img_height ?img) - sHeight) / 2 \<and> sWidth = real (img_width ?img))"
    by (rule conjunct2)
  then have "case cropWindow 1920 1080 of (sx, sy, sWidth, sHeight) \<Rightarrow> sWidth / sHeight = 3 / 2"
    by (simp add: c)
  with a b c show ?thesis by blast
qed

subsection \<open>Which photo fills a slot\<close>










subsection \<open>A render without photos\<close>

text \<open>With a first photo that has a source the component shows the strip and mounts the canvas.\<close>

lemma exportCanvasRef_mounted:
  "exportCanvasRef (PhotoArray [samplePhoto ''photo-1'']) blankCanvas = Some blankCanvas"
  by (simp add: exportCanvasRef_def PhotoCanvas_view_def primaryPhoto_def photos_def samplePhoto_def)



end
